theory Spec2Isabelle
  imports Main "HOL-Library.Multiset"
begin

section \<open>The predictor loader of pkg/workloads/cortex/lib/api/predictor.py\<close>

text \<open>
  The file loads a user's predictor implementation, finds the predictor class in it,
  checks the signatures of its methods against a table of rules and instantiates it.
  Every function of the file is a function here; a Python exception is the left
  injection of a sum, and a Python object that the code inspects is a value of a
  datatype that holds exactly what the code asks of it. A name keeps its Python
  spelling but for a leading underscore: \<^verbatim>\<open>_validate_impl\<close> is \<^verbatim>\<open>validate_impl\<close>,
  \<^verbatim>\<open>_load_module\<close> is \<^verbatim>\<open>load_module\<close>. The calls of \<^verbatim>\<open>refresh_logger\<close> and the
  annotations of the functions are left out.
\<close>

subsection \<open>Exceptions\<close>

text \<open>
  Modelled from the spec: the exception classes of \<^verbatim>\<open>cortex.lib.exceptions\<close> are not
  under src/. The spec says that errors are wrapped, the original message preserved
  and a contextual prefix added; so a Cortex exception carries the list of its
  messages, outermost first, \<^verbatim>\<open>UserException(m1, m2)\<close> carries \<^verbatim>\<open>[m1, m2]\<close>, and
  \<^verbatim>\<open>wrap\<close> puts one message in front. \<^verbatim>\<open>UserException\<close> and
  \<^verbatim>\<open>UserRuntimeException\<close> are the Cortex exceptions; the others are Python's own and
  are not caught by \<^verbatim>\<open>except CortexException\<close>.

  Code that is not this program's (the file loaders, the user's constructor) may raise
  anything. What it raises is a value of \<^verbatim>\<open>raised\<close>: whether the object is an instance
  of \<^verbatim>\<open>Exception\<close> (\<^verbatim>\<open>SystemExit\<close> and \<^verbatim>\<open>KeyboardInterrupt\<close> are not), the name of its
  class, and what \<^verbatim>\<open>str(e)\<close> gives, \<^verbatim>\<open>None\<close> when \<^verbatim>\<open>__str__\<close> itself raises. Such an
  object that nothing catches leaves as \<^verbatim>\<open>Unwrapped\<close>; \<^verbatim>\<open>StrFailure\<close> is the exception
  that \<^verbatim>\<open>str(e)\<close> raised.
\<close>

datatype raised =
  Raised (is_Exception: bool) (class_name: string) (str_result: "string option")

datatype exn =
    UserException "string list"
  | UserRuntimeException "string list"
  | NameError string
  | AttributeError string
  | UnboundLocalError string
  | TypeError string
  | KeyError string
  | IndexError
  | Unwrapped raised
  | StrFailure raised

fun is_CortexException :: "exn \<Rightarrow> bool" where
  "is_CortexException (UserException _) = True"
| "is_CortexException (UserRuntimeException _) = True"
| "is_CortexException _ = False"

fun wrap :: "exn \<Rightarrow> string \<Rightarrow> exn" where
  "wrap (UserException ms) m = UserException (m # ms)"
| "wrap (UserRuntimeException ms) m = UserRuntimeException (m # ms)"
| "wrap e m = e"

text \<open>
  \<^verbatim>\<open>except Exception as e: raise H(..., str(e))\<close> around code that raised \<^verbatim>\<open>r\<close>: the
  handler runs when \<^verbatim>\<open>r\<close> is an instance of \<^verbatim>\<open>Exception\<close>, and it first evaluates
  \<^verbatim>\<open>str(e)\<close>; what is no \<^verbatim>\<open>Exception\<close> passes the clause by.
\<close>

definition except_Exception :: "raised \<Rightarrow> (string \<Rightarrow> exn) \<Rightarrow> exn" where
  "except_Exception r handler =
     (if is_Exception r then
        (case str_result r of
           None \<Rightarrow> StrFailure r
         | Some s \<Rightarrow> handler s)
      else Unwrapped r)"

subsection \<open>Python values, classes and the API specification\<close>

text \<open>
  What \<^verbatim>\<open>getattr(impl, name, None)\<close> can give back, as far as the validator looks at
  it: its truth value, whether it is callable, and the \<^verbatim>\<open>args\<close> of
  \<^verbatim>\<open>inspect.getfullargspec\<close>. A function is always true; any other callable object
  has the truth value its class gives it.
\<close>

datatype pyvalue =
    PyNone
  | PyFunction "string list"
  | PyData bool
  | PyCallable bool "string list"

fun truthy :: "pyvalue \<Rightarrow> bool" where
  "truthy PyNone = False"
| "truthy (PyFunction _) = True"
| "truthy (PyData b) = b"
| "truthy (PyCallable b _) = b"

fun callable :: "pyvalue \<Rightarrow> bool" where
  "callable PyNone = False"
| "callable (PyFunction _) = True"
| "callable (PyData _) = False"
| "callable (PyCallable _ _) = True"

fun getfullargspec_args :: "pyvalue \<Rightarrow> exn + string list" where
  "getfullargspec_args (PyFunction args) = Inr args"
| "getfullargspec_args (PyCallable _ args) = Inr args"
| "getfullargspec_args _ = Inl (TypeError ''unsupported callable'')"

text \<open>A class is the list of its attributes, as attribute lookup on the class sees them.\<close>

datatype pyclass = PyClass (attrs: "(string \<times> pyvalue) list")

definition getattr :: "pyclass \<Rightarrow> string \<Rightarrow> pyvalue" where
  \<comment> \<open>\<^verbatim>\<open>getattr(impl, name, None)\<close>\<close>
  "getattr impl n = (case map_of (attrs impl) n of None \<Rightarrow> PyNone | Some v \<Rightarrow> v)"

text \<open>
  The API specification is a parsed mapping; the record holds the entries under
  \<^verbatim>\<open>"predictor"\<close> that this file reads. \<^verbatim>\<open>config\<close> may be absent, the entries
  \<^verbatim>\<open>model_path\<close> and \<^verbatim>\<open>models.dir\<close> may be \<^verbatim>\<open>None\<close>.
\<close>

type_synonym config = "(string \<times> string) list"

record api_spec =
  predictor_path :: string
  predictor_config :: "config option"
  predictor_model_path :: "string option"
  predictor_models_dir :: "string option"
  predictor_models_paths :: "string list"

definition condition_specified_models :: "pyclass \<Rightarrow> api_spec \<Rightarrow> bool" where
  "condition_specified_models impl api_spec =
     (if predictor_model_path api_spec \<noteq> None
         \<or> predictor_models_dir api_spec \<noteq> None
         \<or> length (predictor_models_paths api_spec) > 0
      then True else False)"

subsection \<open>Signature rules and the validation tables\<close>

text \<open>
  A rule is a dictionary; every key but \<^verbatim>\<open>name\<close> may be absent. The tables are module
  globals, so a rule read from a table is the stored object itself:
  \<^verbatim>\<open>func_signature.get("required_args", [])\<close> is the stored list when the key is there
  and a fresh list when it is not.
\<close>

type_synonym condition = "pyclass \<Rightarrow> api_spec \<Rightarrow> bool"

record func_signature =
  rule_name :: string
  rule_required_args :: "string list option"
  rule_optional_args :: "string list option"
  rule_condition_args :: "(string \<times> condition) list option"
  rule_condition :: "condition option"

text \<open>\<^verbatim>\<open>impl_req.get(key, [])\<close>: an absent key reads as the empty list.\<close>

record impl_req =
  req_optional :: "func_signature list"
  req_required :: "func_signature list"
  req_conditional :: "func_signature list"

definition PYTHON_CLASS_VALIDATION :: impl_req where
  "PYTHON_CLASS_VALIDATION =
     \<lparr> req_optional = [],
       req_required =
         [ \<lparr> rule_name = ''__init__'',
             rule_required_args = Some [''self'', ''config''],
             rule_optional_args = None,
             rule_condition_args = Some [(''python_client'', condition_specified_models)],
             rule_condition = None \<rparr>,
           \<lparr> rule_name = ''predict'',
             rule_required_args = Some [''self''],
             rule_optional_args = Some [''payload'', ''query_params'', ''headers''],
             rule_condition_args = None,
             rule_condition = None \<rparr> ],
       req_conditional =
         [ \<lparr> rule_name = ''load_model'',
             rule_required_args = Some [''self'', ''model_path''],
             rule_optional_args = None,
             rule_condition_args = None,
             rule_condition = Some condition_specified_models \<rparr> ] \<rparr>"

definition TENSORFLOW_CLASS_VALIDATION :: impl_req where
  "TENSORFLOW_CLASS_VALIDATION =
     \<lparr> req_optional = [],
       req_required =
         [ \<lparr> rule_name = ''__init__'',
             rule_required_args = Some [''self'', ''tensorflow_client'', ''config''],
             rule_optional_args = None,
             rule_condition_args = None,
             rule_condition = None \<rparr>,
           \<lparr> rule_name = ''predict'',
             rule_required_args = Some [''self''],
             rule_optional_args = Some [''payload'', ''query_params'', ''headers''],
             rule_condition_args = None,
             rule_condition = None \<rparr> ],
       req_conditional = [] \<rparr>"

definition ONNX_CLASS_VALIDATION :: impl_req where
  "ONNX_CLASS_VALIDATION =
     \<lparr> req_optional = [],
       req_required =
         [ \<lparr> rule_name = ''__init__'',
             rule_required_args = Some [''self'', ''onnx_client'', ''config''],
             rule_optional_args = None,
             rule_condition_args = None,
             rule_condition = None \<rparr>,
           \<lparr> rule_name = ''predict'',
             rule_required_args = Some [''self''],
             rule_optional_args = Some [''payload'', ''query_params'', ''headers''],
             rule_condition_args = None,
             rule_condition = None \<rparr> ],
       req_conditional = [] \<rparr>"

subsection \<open>The validator\<close>

text \<open>The messages of the six \<^verbatim>\<open>UserException\<close>s of \<^verbatim>\<open>_validate_required_fn_args\<close>.\<close>

definition msg_not_defined :: "string \<Rightarrow> string" where
  "msg_not_defined n = ''required function \"'' @ n @ ''\" is not defined''"

definition msg_not_function :: "string \<Rightarrow> string" where
  "msg_not_function n = ''\"'' @ n @ ''\" is defined, but is not a function''"

definition msg_not_provided :: "string \<Rightarrow> string \<Rightarrow> string" where
  "msg_not_provided fn_str arg_name =
     ''invalid signature for function \"'' @ fn_str @ ''\": \"'' @ arg_name
       @ ''\" is a required argument, but was not provided''"

definition msg_self_first :: "string \<Rightarrow> string" where
  "msg_self_first fn_str =
     ''invalid signature for function \"'' @ fn_str
       @ ''\": \"self\" must be the first argument''"

definition msg_not_supported :: "string \<Rightarrow> string \<Rightarrow> string" where
  "msg_not_supported fn_str arg_name =
     ''invalid signature for function \"'' @ fn_str @ ''\": \"'' @ arg_name
       @ ''\" is not a supported argument''"

definition msg_duplicated :: "string \<Rightarrow> string \<Rightarrow> string" where
  "msg_duplicated fn_str arg_name =
     ''invalid signature for function \"'' @ fn_str @ ''\": \"'' @ arg_name
       @ ''\" is duplicated''"

fun join :: "string \<Rightarrow> string list \<Rightarrow> string" where
  "join sep [] = []"
| "join sep [x] = x"
| "join sep (x # y # ys) = x @ sep @ join sep (y # ys)"

definition render_fn_str :: "string \<Rightarrow> string list \<Rightarrow> string" where
  \<comment> \<open>\<^verbatim>\<open>f'{func_signature["name"]}({", ".join(argspec.args)})'\<close>\<close>
  "render_fn_str n args = n @ ''('' @ join '', '' args @ '')''"

text \<open>
  Line 239 reads the name \<^verbatim>\<open>api_spec\<close>. It is no parameter and no local of
  \<^verbatim>\<open>_validate_required_fn_args(impl, func_signature)\<close>, and the module binds no global
  of that name, so reading it raises \<^verbatim>\<open>NameError\<close>.
\<close>

definition load_name_api_spec :: "exn + api_spec" where
  "load_name_api_spec = Inl (NameError ''api_spec'')"

text \<open>
  The loop of lines 238 to 240 over the conditional arguments. \<^verbatim>\<open>required_args.append\<close>
  changes the list in place, so the list as it stands is returned also when an
  iteration raises.
\<close>

fun condition_args_loop ::
  "pyclass \<Rightarrow> (string \<times> condition) list \<Rightarrow> string list \<Rightarrow> exn option \<times> string list" where
  "condition_args_loop impl [] required_args = (None, required_args)"
| "condition_args_loop impl ((arg_name, cond) # rest) required_args =
     (case load_name_api_spec of
        Inl e \<Rightarrow> (Some e, required_args)
      | Inr api_spec \<Rightarrow>
          condition_args_loop impl rest
            (if cond impl api_spec then required_args @ [arg_name] else required_args))"

text \<open>The loop of lines 245 to 255 over the required arguments.\<close>

fun check_required_args :: "string \<Rightarrow> string list \<Rightarrow> string list \<Rightarrow> exn + unit" where
  "check_required_args fn_str args [] = Inr ()"
| "check_required_args fn_str args (arg_name # rest) =
     (if arg_name \<notin> set args then Inl (UserException [msg_not_provided fn_str arg_name])
      else if arg_name = ''self'' then
        (case args of
           [] \<Rightarrow> Inl IndexError
         | first # _ \<Rightarrow>
             if first \<noteq> ''self'' then Inl (UserException [msg_self_first fn_str])
             else check_required_args fn_str args rest)
      else check_required_args fn_str args rest)"

text \<open>The loop of lines 257 to 269 over the formal parameters, with \<^verbatim>\<open>seen_args\<close>.\<close>

fun check_formal_args ::
  "string \<Rightarrow> string list \<Rightarrow> string list \<Rightarrow> string list \<Rightarrow> string list \<Rightarrow> exn + unit" where
  "check_formal_args fn_str required_args optional_args seen_args [] = Inr ()"
| "check_formal_args fn_str required_args optional_args seen_args (arg_name # rest) =
     (if arg_name \<notin> set required_args \<and> arg_name \<notin> set optional_args
      then Inl (UserException [msg_not_supported fn_str arg_name])
      else if arg_name \<in> set seen_args
      then Inl (UserException [msg_duplicated fn_str arg_name])
      else check_formal_args fn_str required_args optional_args (seen_args @ [arg_name]) rest)"

definition check_signature ::
  "string \<Rightarrow> pyvalue \<Rightarrow> string list \<Rightarrow> string list \<Rightarrow> exn + unit" where
  \<comment> \<open>lines 242 to 269\<close>
  "check_signature n fn required_args optional_args =
     (case getfullargspec_args fn of
        Inl e \<Rightarrow> Inl e
      | Inr args \<Rightarrow>
          (case check_required_args (render_fn_str n args) args required_args of
             Inl e \<Rightarrow> Inl e
           | Inr _ \<Rightarrow>
               check_formal_args (render_fn_str n args) required_args optional_args [] args))"

text \<open>
  \<^verbatim>\<open>_validate_required_fn_args\<close>. The result is paired with the rule as the call
  leaves it: the appended names stay in the stored list when the rule has the key
  \<^verbatim>\<open>required_args\<close>.
\<close>

definition validate_required_fn_args ::
  "pyclass \<Rightarrow> func_signature \<Rightarrow> (exn + unit) \<times> func_signature" where
  "validate_required_fn_args impl func_signature =
     (let fn = getattr impl (rule_name func_signature) in
      if \<not> truthy fn
      then (Inl (UserException [msg_not_defined (rule_name func_signature)]), func_signature)
      else if \<not> callable fn
      then (Inl (UserException [msg_not_function (rule_name func_signature)]), func_signature)
      else
        let required_args0 =
              (case rule_required_args func_signature of None \<Rightarrow> [] | Some l \<Rightarrow> l);
            optional_args =
              (case rule_optional_args func_signature of None \<Rightarrow> [] | Some l \<Rightarrow> l);
            looped =
              (case rule_condition_args func_signature of
                 None \<Rightarrow> (None, required_args0)
               | Some [] \<Rightarrow> (None, required_args0)
               | Some cargs \<Rightarrow> condition_args_loop impl cargs required_args0);
            required_args = snd looped;
            func_signature' =
              (case rule_required_args func_signature of
                 None \<Rightarrow> func_signature
               | Some _ \<Rightarrow> func_signature\<lparr>rule_required_args := Some required_args\<rparr>)
        in (case fst looped of
              Some e \<Rightarrow> (Inl e, func_signature')
            | None \<Rightarrow>
                (check_signature (rule_name func_signature) fn required_args optional_args,
                 func_signature')))"

definition validate_optional_fn_args ::
  "pyclass \<Rightarrow> func_signature \<Rightarrow> (exn + unit) \<times> func_signature" where
  "validate_optional_fn_args impl func_signature =
     (if truthy (getattr impl (rule_name func_signature))
      then validate_required_fn_args impl func_signature
      else (Inr (), func_signature))"

text \<open>The body of the third loop of \<^verbatim>\<open>_validate_impl\<close> (lines 217 and 218).\<close>

definition validate_conditional ::
  "pyclass \<Rightarrow> api_spec \<Rightarrow> func_signature \<Rightarrow> (exn + unit) \<times> func_signature" where
  "validate_conditional impl api_spec func_signature =
     (case rule_condition func_signature of
        None \<Rightarrow> (Inl (KeyError ''condition''), func_signature)
      | Some cond \<Rightarrow>
          if cond impl api_spec then validate_required_fn_args impl func_signature
          else (Inr (), func_signature))"

text \<open>A \<^verbatim>\<open>for\<close> loop whose body may raise: the rules after the raising one are not run.\<close>

fun for_each ::
  "(func_signature \<Rightarrow> (exn + unit) \<times> func_signature) \<Rightarrow> func_signature list
     \<Rightarrow> (exn + unit) \<times> func_signature list" where
  "for_each body [] = (Inr (), [])"
| "for_each body (r # rs) =
     (case body r of
        (Inl e, r') \<Rightarrow> (Inl e, r' # rs)
      | (Inr _, r') \<Rightarrow> (case for_each body rs of (res, rs') \<Rightarrow> (res, r' # rs')))"

definition validate_impl ::
  "pyclass \<Rightarrow> impl_req \<Rightarrow> api_spec \<Rightarrow> (exn + unit) \<times> impl_req" where
  "validate_impl impl req api_spec =
     (case for_each (validate_optional_fn_args impl) (req_optional req) of
        (Inl e, opt') \<Rightarrow> (Inl e, req\<lparr>req_optional := opt'\<rparr>)
      | (Inr _, opt') \<Rightarrow>
          (case for_each (validate_required_fn_args impl) (req_required req) of
             (Inl e, rq') \<Rightarrow> (Inl e, req\<lparr>req_optional := opt', req_required := rq'\<rparr>)
           | (Inr _, rq') \<Rightarrow>
               (case for_each (validate_conditional impl api_spec) (req_conditional req) of
                  (res, cd') \<Rightarrow>
                    (res, req\<lparr>req_optional := opt', req_required := rq',
                               req_conditional := cd'\<rparr>))))"

subsection \<open>Modules and the module loader\<close>

text \<open>
  A module is its namespace: the list of the bindings made in it, in the order in
  which they were made, a later binding of a name standing for the earlier ones. A
  class carries its declared name (\<^verbatim>\<open>__name__\<close>), which need not be the name it is
  bound to. \<^verbatim>\<open>dir\<close> gives every bound name once and \<^verbatim>\<open>getattr\<close> what the name is
  bound to now, so \<^verbatim>\<open>inspect.getmembers(impl, inspect.isclass)\<close> gives one pair of name
  and class for every name that is bound to a class. \<^verbatim>\<open>getmembers\<close> sorts the pairs by
  name; here they come in the order of the first binding of each name.
\<close>

datatype pymember = Class (declared_name: string) pyclass | NotClass

type_synonym pymodule = "(string \<times> pymember) list"

definition new_module :: "string \<Rightarrow> pymodule" where
  \<comment> \<open>\<^verbatim>\<open>imp.new_module(name)\<close>: a module with its five dunder attributes, none a class\<close>
  "new_module n =
     [(''__name__'', NotClass), (''__doc__'', NotClass), (''__package__'', NotClass),
      (''__loader__'', NotClass), (''__spec__'', NotClass)]"

definition setattr :: "pymodule \<Rightarrow> string \<Rightarrow> pymember \<Rightarrow> pymodule" where
  "setattr m k v = m @ [(k, v)]"

definition dir_module :: "pymodule \<Rightarrow> string list" where
  "dir_module m = rev (remdups (rev (map fst m)))"

definition getattr_module :: "pymodule \<Rightarrow> string \<Rightarrow> pymember option" where
  "getattr_module m n = map_of (rev m) n"

fun isclass_members :: "pymodule \<Rightarrow> string list \<Rightarrow> (string \<times> pyclass) list" where
  "isclass_members m [] = []"
| "isclass_members m (n # ns) =
     (case getattr_module m n of
        Some (Class d c) \<Rightarrow> (n, c) # isclass_members m ns
      | _ \<Rightarrow> isclass_members m ns)"

definition getmembers_isclass :: "pymodule \<Rightarrow> (string \<times> pyclass) list" where
  "getmembers_isclass m = isclass_members m (dir_module m)"

text \<open>
  What lies outside the program: the files. \<^verbatim>\<open>dill_load_file p\<close> is the outcome of
  opening \<^verbatim>\<open>p\<close>, unpickling it and walking the unpickled mapping, and
  \<^verbatim>\<open>imp_load_source n p\<close> the outcome of executing the source file \<^verbatim>\<open>p\<close> as module
  \<^verbatim>\<open>n\<close>: \<^verbatim>\<open>Inl r\<close> when \<^verbatim>\<open>r\<close> is raised, whatever it is. Both are taken as given.
\<close>

record loader_env =
  dill_load_file :: "string \<Rightarrow> raised + (string \<times> pymember) list"
  imp_load_source :: "string \<Rightarrow> string \<Rightarrow> raised + pymodule"

definition endswith :: "string \<Rightarrow> string \<Rightarrow> bool" where
  "endswith s suffix = (take (length suffix) (rev s) = rev suffix)"

fun setattr_all :: "pymodule \<Rightarrow> (string \<times> pymember) list \<Rightarrow> pymodule" where
  \<comment> \<open>\<^verbatim>\<open>for key in pickled_dict: setattr(impl, key, pickled_dict[key])\<close>\<close>
  "setattr_all impl [] = impl"
| "setattr_all impl ((key, v) # rest) = setattr_all (setattr impl key v) rest"

definition load_module :: "loader_env \<Rightarrow> string \<Rightarrow> string \<Rightarrow> exn + pymodule" where
  "load_module env module_name impl_path =
     (if endswith impl_path ''.pickle'' then
        (case dill_load_file env impl_path of
           Inl r \<Rightarrow>
             Inl (except_Exception r (\<lambda>str_e. UserException [''unable to load pickle'', str_e]))
         | Inr pickled_dict \<Rightarrow> Inr (setattr_all (new_module module_name) pickled_dict))
      else
        (case imp_load_source env module_name impl_path of
           Inl r \<Rightarrow> Inl (except_Exception r (\<lambda>str_e. UserException [str_e]))
         | Inr impl \<Rightarrow> Inr impl))"

subsection \<open>The predictor\<close>

text \<open>
  Modelled from the spec: the predictor types of \<^verbatim>\<open>cortex.lib.api\<close> are not under src/.
  The spec gives four kinds. The code compares \<^verbatim>\<open>self.type\<close> with the imported
  constants and with the strings \<^verbatim>\<open>"python"\<close>, \<^verbatim>\<open>"tensorflow"\<close> and \<^verbatim>\<open>"onnx"\<close>; a
  type is taken to equal the string that names it. The neuron type is a value of its
  own, different from the three others, so it equals none of these three strings.
\<close>

datatype predictor_type =
    PythonPredictorType
  | TensorFlowPredictorType
  | TensorFlowNeuronPredictorType
  | ONNXPredictorType

fun type_eq_str :: "predictor_type \<Rightarrow> string \<Rightarrow> bool" where
  "type_eq_str PythonPredictorType s = (s = ''python'')"
| "type_eq_str TensorFlowPredictorType s = (s = ''tensorflow'')"
| "type_eq_str ONNXPredictorType s = (s = ''onnx'')"
| "type_eq_str TensorFlowNeuronPredictorType s = False"

text \<open>The attributes that \<^verbatim>\<open>Predictor.__init__\<close> binds, and no others.\<close>

record predictor =
  self_provider :: string
  self_type :: predictor_type
  self_path :: string
  self_config :: config
  self_model_dir :: string
  self_api_spec :: api_spec

definition Predictor_init ::
  "predictor_type \<Rightarrow> string \<Rightarrow> string \<Rightarrow> api_spec \<Rightarrow> predictor" where
  \<comment> \<open>the first argument is what \<^verbatim>\<open>predictor_type_from_api_spec(api_spec)\<close> gave\<close>
  "Predictor_init kind provider model_dir api_spec =
     \<lparr> self_provider = provider,
       self_type = kind,
       self_path = predictor_path api_spec,
       self_config = (case predictor_config api_spec of None \<Rightarrow> [] | Some c \<Rightarrow> c),
       self_model_dir = model_dir,
       self_api_spec = api_spec \<rparr>"

text \<open>
  Reading an attribute of the predictor object by name: the six attributes that
  \<^verbatim>\<open>__init__\<close> binds, the methods of the class, and \<^verbatim>\<open>AttributeError\<close> for any other
  name. \<^verbatim>\<open>self._api_spec\<close> (line 122) and \<^verbatim>\<open>self.models\<close> (line 68) are such reads.
\<close>

datatype attr_value =
    StrValue string
  | TypeValue predictor_type
  | ConfigValue config
  | ApiSpecValue api_spec
  | MethodValue string

definition self_getattr :: "predictor \<Rightarrow> string \<Rightarrow> exn + attr_value" where
  "self_getattr self n =
     (if n = ''provider'' then Inr (StrValue (self_provider self))
      else if n = ''type'' then Inr (TypeValue (self_type self))
      else if n = ''path'' then Inr (StrValue (self_path self))
      else if n = ''config'' then Inr (ConfigValue (self_config self))
      else if n = ''model_dir'' then Inr (StrValue (self_model_dir self))
      else if n = ''api_spec'' then Inr (ApiSpecValue (self_api_spec self))
      else if n \<in> set [''__init__'', ''initialize_client'', ''initialize_impl'', ''class_impl'',
                        ''_load_module'', ''_compute_model_basepath'']
      then Inr (MethodValue n)
      else Inl (AttributeError n))"

subsection \<open>The runtime client\<close>

datatype client = PythonClient | TensorFlowClient string | ONNXClient attr_value

definition str_add :: "string option \<Rightarrow> string option \<Rightarrow> exn + string" where
  \<comment> \<open>\<^verbatim>\<open>+\<close> on two values that are a string or \<^verbatim>\<open>None\<close>\<close>
  "str_add a b =
     (case (a, b) of
        (Some x, Some y) \<Rightarrow> Inr (x @ y)
      | _ \<Rightarrow> Inl (TypeError ''unsupported operand type(s) for +''))"

definition initialize_client ::
  "predictor \<Rightarrow> string option \<Rightarrow> string option \<Rightarrow> exn + client option" where
  "initialize_client self tf_serving_host tf_serving_port =
     (let client0 = None;
          client1 = (if self_type self = PythonPredictorType then Some PythonClient else client0)
      in
      case (if self_type self \<in> set [TensorFlowPredictorType, TensorFlowNeuronPredictorType]
            then (case str_add tf_serving_host (Some '':'') of
                    Inl e \<Rightarrow> Inl e
                  | Inr s \<Rightarrow>
                      (case str_add (Some s) tf_serving_port of
                         Inl e \<Rightarrow> Inl e
                       | Inr tf_serving_address \<Rightarrow> Inr (Some (TensorFlowClient tf_serving_address))))
            else Inr client1) of
        Inl e \<Rightarrow> Inl e
      | Inr client2 \<Rightarrow>
          if self_type self = ONNXPredictorType
          then (case self_getattr self ''models'' of
                  Inl e \<Rightarrow> Inl e
                | Inr m \<Rightarrow> Inr (Some (ONNXClient m)))
          else Inr client2)"

subsection \<open>Finding the class and instantiating it\<close>

definition msg_multiple :: "string \<Rightarrow> string" where
  "msg_multiple target_class_name =
     ''multiple definitions for '' @ target_class_name
       @ '' class found; please check your imports and class definitions and ensure that there is only one Predictor class definition''"

definition msg_no_class :: "string \<Rightarrow> string" where
  "msg_no_class target_class_name = target_class_name @ '' class is not defined''"

text \<open>The loop of lines 110 to 118, with \<^verbatim>\<open>predictor_class\<close> as it stands.\<close>

fun class_loop ::
  "string \<Rightarrow> (string \<times> pyclass) list \<Rightarrow> pyclass option \<Rightarrow> exn + pyclass option" where
  "class_loop target_class_name [] predictor_class = Inr predictor_class"
| "class_loop target_class_name (class_df # rest) predictor_class =
     (if fst class_df = target_class_name then
        (if predictor_class \<noteq> None
         then Inl (UserException [msg_multiple target_class_name])
         else class_loop target_class_name rest (Some (snd class_df)))
      else class_loop target_class_name rest predictor_class)"

definition find_predictor_class :: "(string \<times> pyclass) list \<Rightarrow> string \<Rightarrow> exn + pyclass" where
  \<comment> \<open>lines 108 to 120, on the list \<^verbatim>\<open>classes\<close>\<close>
  "find_predictor_class classes target_class_name =
     (case class_loop target_class_name classes None of
        Inl e \<Rightarrow> Inl e
      | Inr None \<Rightarrow> Inl (UserException [msg_no_class target_class_name])
      | Inr (Some predictor_class) \<Rightarrow> Inr predictor_class)"

definition os_path_join :: "string \<Rightarrow> string \<Rightarrow> string" where
  \<comment> \<open>\<^verbatim>\<open>posixpath.join\<close> of two parts\<close>
  "os_path_join a b =
     (if take 1 b = ''/'' then b
      else if a = [] \<or> take 1 (rev a) = ''/'' then a @ b
      else a @ ''/'' @ b)"

definition select_validation :: "predictor \<Rightarrow> (string \<times> impl_req) option" where
  \<comment> \<open>lines 89 to 97; \<^verbatim>\<open>None\<close> when no branch binds the two locals\<close>
  "select_validation self =
     (if type_eq_str (self_type self) ''tensorflow''
      then Some (''TensorFlowPredictor'', TENSORFLOW_CLASS_VALIDATION)
      else if type_eq_str (self_type self) ''onnx''
      then Some (''ONNXPredictor'', ONNX_CLASS_VALIDATION)
      else if type_eq_str (self_type self) ''python''
      then Some (''PythonPredictor'', PYTHON_CLASS_VALIDATION)
      else None)"

definition except_CortexException_wrap :: "string \<Rightarrow> exn \<Rightarrow> exn" where
  \<comment> \<open>\<^verbatim>\<open>except CortexException as e: e.wrap(m); raise\<close>\<close>
  "except_CortexException_wrap m e = (if is_CortexException e then wrap e m else e)"

definition class_impl_try :: "predictor \<Rightarrow> pymodule \<Rightarrow> exn + pyclass" where
  \<comment> \<open>the body of the \<^verbatim>\<open>try\<close> of lines 108 to 122\<close>
  "class_impl_try self impl =
     (case select_validation self of
        None \<Rightarrow> Inl (UnboundLocalError ''target_class_name'')
      | Some (target_class_name, validations) \<Rightarrow>
          (case find_predictor_class (getmembers_isclass impl) target_class_name of
             Inl e \<Rightarrow> Inl e
           | Inr predictor_class \<Rightarrow>
               (case self_getattr self ''_api_spec'' of
                  Inl e \<Rightarrow> Inl e
                | Inr (ApiSpecValue api_spec) \<Rightarrow>
                    (case fst (validate_impl predictor_class validations api_spec) of
                       Inl e \<Rightarrow> Inl e
                     | Inr _ \<Rightarrow> Inr predictor_class)
                | Inr _ \<Rightarrow> Inl (TypeError ''not a mapping''))))"
  \<comment> \<open>the last case is never met: \<^verbatim>\<open>_api_spec\<close> is the one name read here\<close>

definition class_impl :: "loader_env \<Rightarrow> predictor \<Rightarrow> string \<Rightarrow> exn + pyclass" where
  "class_impl env self project_dir =
     (case load_module env ''cortex_predictor'' (os_path_join project_dir (self_path self)) of
        Inl e \<Rightarrow> Inl (except_CortexException_wrap (''error in '' @ self_path self) e)
      | Inr impl \<Rightarrow>
          (case class_impl_try self impl of
             Inl e \<Rightarrow> Inl (except_CortexException_wrap (''error in '' @ self_path self) e)
           | Inr predictor_class \<Rightarrow> Inr predictor_class))"

text \<open>
  The constructor of the user's class is code that is not known here: \<^verbatim>\<open>call cls kwargs\<close>
  is the outcome of calling the class with these keyword arguments, \<^verbatim>\<open>Inl r\<close> when
  \<^verbatim>\<open>r\<close> is raised.
\<close>

datatype kwarg = ClientArg "client option" | ConfigArg config

definition instantiate ::
  "(pyclass \<Rightarrow> (string \<times> kwarg) list \<Rightarrow> raised + 'obj) \<Rightarrow> predictor \<Rightarrow> pyclass
     \<Rightarrow> client option \<Rightarrow> exn + 'obj" where
  \<comment> \<open>the \<^verbatim>\<open>try\<close> of lines 76 to 84\<close>
  "instantiate call self class_impl' client =
     (case (if type_eq_str (self_type self) ''onnx''
            then call class_impl'
                   [(''onnx_client'', ClientArg client), (''config'', ConfigArg (self_config self))]
            else if type_eq_str (self_type self) ''tensorflow''
            then call class_impl'
                   [(''tensorflow_client'', ClientArg client),
                    (''config'', ConfigArg (self_config self))]
            else call class_impl' [(''config'', ConfigArg (self_config self))]) of
        Inl r \<Rightarrow>
          Inl (except_Exception r
                 (\<lambda>str_e. UserRuntimeException [self_path self, ''__init__'', str_e]))
      | Inr obj \<Rightarrow> Inr obj)"

definition initialize_impl ::
  "loader_env \<Rightarrow> (pyclass \<Rightarrow> (string \<times> kwarg) list \<Rightarrow> raised + 'obj) \<Rightarrow> predictor \<Rightarrow> string
     \<Rightarrow> client option \<Rightarrow> exn + 'obj" where
  "initialize_impl env call self project_dir client =
     (case class_impl env self project_dir of
        Inl e \<Rightarrow> Inl e
      | Inr class_impl' \<Rightarrow> instantiate call self class_impl' client)"

subsection \<open>The order of validation, as the specification words it\<close>

text \<open>
  The specification: the rules are processed in order and validation stops at the first
  violation. \<^verbatim>\<open>first_violation\<close> takes the outcomes of the checks in their order and
  gives the first that raised.
\<close>

fun first_violation :: "(exn + unit) list \<Rightarrow> exn + unit" where
  "first_violation [] = Inr ()"
| "first_violation (Inl e # rest) = Inl e"
| "first_violation (Inr u # rest) = first_violation rest"

subsection \<open>Concrete implementations\<close>

text \<open>
  The scenario of the specification: type \<^verbatim>\<open>python\<close>, path \<^verbatim>\<open>p.py\<close>, an empty
  \<^verbatim>\<open>config\<close>, no model path and no models, and a module with the one class
  \<^verbatim>\<open>PythonPredictor\<close> with \<^verbatim>\<open>__init__(self, config)\<close> and \<^verbatim>\<open>predict(self, payload)\<close>.
\<close>

definition scenario_api_spec :: api_spec where
  "scenario_api_spec =
     \<lparr> predictor_path = ''p.py'',
       predictor_config = Some [],
       predictor_model_path = None,
       predictor_models_dir = None,
       predictor_models_paths = [] \<rparr>"

definition scenario_class :: pyclass where
  "scenario_class =
     PyClass [(''__init__'', PyFunction [''self'', ''config'']),
              (''predict'', PyFunction [''self'', ''payload''])]"

definition scenario_module :: pymodule where
  "scenario_module =
     new_module ''cortex_predictor''
       @ [(''PythonPredictor'', Class ''PythonPredictor'' scenario_class)]"

definition no_such_file :: raised where
  "no_such_file = Raised True ''FileNotFoundError'' (Some ''No such file or directory'')"

definition scenario_env :: loader_env where
  "scenario_env =
     \<lparr> dill_load_file = (\<lambda>p. Inl no_such_file),
       imp_load_source =
         (\<lambda>n p. if p = ''/project/p.py'' then Inr scenario_module else Inl no_such_file) \<rparr>"

text \<open>The same for a TensorFlow predictor.\<close>

definition tensorflow_class :: pyclass where
  "tensorflow_class =
     PyClass [(''__init__'', PyFunction [''self'', ''tensorflow_client'', ''config'']),
              (''predict'', PyFunction [''self'', ''payload''])]"

definition tensorflow_env :: loader_env where
  "tensorflow_env =
     \<lparr> dill_load_file = (\<lambda>p. Inl no_such_file),
       imp_load_source =
         (\<lambda>n p. if p = ''/project/p.py''
                then Inr (new_module n
                            @ [(''TensorFlowPredictor'', Class ''TensorFlowPredictor'' tensorflow_class)])
                else Inl no_such_file) \<rparr>"

text \<open>
  A Python predictor that takes the client and has no \<^verbatim>\<open>load_model\<close>, and a
  specification with \<^verbatim>\<open>models.dir\<close> set.
\<close>

definition client_class :: pyclass where
  "client_class =
     PyClass [(''__init__'', PyFunction [''self'', ''config'', ''python_client'']),
              (''predict'', PyFunction [''self'', ''payload''])]"

definition models_dir_api_spec :: api_spec where
  "models_dir_api_spec = scenario_api_spec\<lparr>predictor_models_dir := Some ''s3://bucket/models''\<rparr>"

text \<open>A Python predictor whose constructor lacks \<^verbatim>\<open>config\<close>.\<close>

definition no_config_class :: pyclass where
  "no_config_class =
     PyClass [(''__init__'', PyFunction [''self'']),
              (''predict'', PyFunction [''self'', ''payload''])]"

definition tensorflow_no_config_class :: pyclass where
  "tensorflow_no_config_class =
     PyClass [(''__init__'', PyFunction [''self'', ''tensorflow_client'']),
              (''predict'', PyFunction [''self'', ''payload''])]"

text \<open>The first rule of the table of the Python predictor, the one of \<^verbatim>\<open>__init__\<close>.\<close>

definition python_init_rule :: func_signature where
  "python_init_rule =
     \<lparr> rule_name = ''__init__'',
       rule_required_args = Some [''self'', ''config''],
       rule_optional_args = None,
       rule_condition_args = Some [(''python_client'', condition_specified_models)],
       rule_condition = None \<rparr>"



text \<open>
  A source file that defines the class \<^verbatim>\<open>PythonPredictor\<close> twice, and one that imports a
  class declared as \<^verbatim>\<open>PythonPredictor\<close> under the name \<^verbatim>\<open>Base\<close> and then defines its own
  \<^verbatim>\<open>PythonPredictor\<close>.
\<close>

definition duplicate_module :: pymodule where
  "duplicate_module =
     new_module ''cortex_predictor''
       @ [(''PythonPredictor'', Class ''PythonPredictor'' scenario_class),
          (''PythonPredictor'', Class ''PythonPredictor'' client_class)]"

definition alias_module :: pymodule where
  "alias_module =
     new_module ''cortex_predictor''
       @ [(''Base'', Class ''PythonPredictor'' client_class),
          (''PythonPredictor'', Class ''PythonPredictor'' scenario_class)]"

definition duplicate_env :: loader_env where
  "duplicate_env =
     \<lparr> dill_load_file = (\<lambda>p. Inl no_such_file),
       imp_load_source =
         (\<lambda>n p. if p = ''/project/p.py'' then Inr duplicate_module else Inl no_such_file) \<rparr>"

section \<open>The validator\<close>

subsection \<open>The tables are left as they were\<close>

text \<open>
  The loop over the conditional arguments raises in its first iteration, before
  anything is appended.
\<close>

lemma condition_args_loop_raises:
  "cargs \<noteq> [] \<Longrightarrow>
     condition_args_loop impl cargs required_args = (Some (NameError ''api_spec''), required_args)"
  by (cases cargs) (auto simp: load_name_api_spec_def)

lemma validate_required_frame: "snd (validate_required_fn_args impl r) = r"
  by (auto simp: validate_required_fn_args_def Let_def condition_args_loop_raises
      split: option.splits list.splits)

lemma validate_optional_frame: "snd (validate_optional_fn_args impl r) = r"
  by (simp add: validate_optional_fn_args_def validate_required_frame)

lemma validate_conditional_frame: "snd (validate_conditional impl api_spec r) = r"
  by (simp add: validate_conditional_def validate_required_frame split: option.splits)

lemma for_each_frame:
  "(\<And>r. snd (body r) = r) \<Longrightarrow> snd (for_each body rs) = rs"
proof (induction rs)
  case Nil
  then show ?case by simp
next
  case (Cons r rs)
  have "snd (body r) = r" by (rule Cons.prems)
  with Cons show ?case
    by (cases "body r") (auto split: sum.splits prod.splits)
qed

lemma validate_impl_frame: "snd (validate_impl impl req api_spec) = req"
proof -
  have a: "\<And>rs. snd (for_each (validate_optional_fn_args impl) rs) = rs"
    by (rule for_each_frame) (rule validate_optional_frame)
  have b: "\<And>rs. snd (for_each (validate_required_fn_args impl) rs) = rs"
    by (rule for_each_frame) (rule validate_required_frame)
  have c: "\<And>rs. snd (for_each (validate_conditional impl api_spec) rs) = rs"
    by (rule for_each_frame) (rule validate_conditional_frame)
  show ?thesis
    unfolding validate_impl_def
    using a[of "req_optional req"] b[of "req_required req"] c[of "req_conditional req"]
    by (auto split: prod.splits sum.splits)
qed

text \<open>
  For the \<^verbatim>\<open>__init__\<close> rule of the Python table and the class of the scenario, the call
  raises at line 239 and leaves the rule as it was.
\<close>

lemma python_init_rule_raises:
  "validate_required_fn_args scenario_class python_init_rule
     = (Inl (NameError ''api_spec''), python_init_rule)
   \<and> python_init_rule = hd (req_required PYTHON_CLASS_VALIDATION)"
  by (simp add: validate_required_fn_args_def python_init_rule_def scenario_class_def
      getattr_def load_name_api_spec_def PYTHON_CLASS_VALIDATION_def)

text \<open>
  Claim C9. The rules and the tables are immutable: no run of the validation changes
  the required arguments that a rule holds, or anything else in a table. Whatever the
  class, the table and the specification, \<^verbatim>\<open>_validate_impl\<close> leaves the table as it
  found it, and so do \<^verbatim>\<open>_validate_required_fn_args\<close> and
  \<^verbatim>\<open>_validate_optional_fn_args\<close> with the rule.
\<close>

theorem validation_leaves_tables:
  "snd (validate_impl impl req api_spec) = req
   \<and> snd (validate_required_fn_args impl r) = r
   \<and> snd (validate_optional_fn_args impl r) = r"
  by (simp add: validate_impl_frame validate_required_frame validate_optional_frame)

subsection \<open>The order of the rules\<close>

lemma for_each_first:
  "fst (for_each body rs) = first_violation (map (\<lambda>r. fst (body r)) rs)"
proof (induction rs)
  case Nil
  then show ?case by simp
next
  case (Cons r rs)
  then show ?case
    by (cases "body r") (auto split: sum.splits prod.splits)
qed

lemma first_violation_append:
  "first_violation (xs @ ys)
     = (case first_violation xs of Inl e \<Rightarrow> Inl e | Inr _ \<Rightarrow> first_violation ys)"
  by (induction xs rule: first_violation.induct) auto

lemma validate_impl_first:
  "fst (validate_impl impl req api_spec) =
     first_violation
       (map (\<lambda>r. fst (validate_optional_fn_args impl r)) (req_optional req)
        @ map (\<lambda>r. fst (validate_required_fn_args impl r)) (req_required req)
        @ map (\<lambda>r. fst (validate_conditional impl api_spec r)) (req_conditional req))"
proof -
  have "fst (validate_impl impl req api_spec) =
      (case fst (for_each (validate_optional_fn_args impl) (req_optional req)) of
         Inl e \<Rightarrow> Inl e
       | Inr _ \<Rightarrow>
          (case fst (for_each (validate_required_fn_args impl) (req_required req)) of
             Inl e \<Rightarrow> Inl e
           | Inr _ \<Rightarrow> fst (for_each (validate_conditional impl api_spec) (req_conditional req))))"
    unfolding validate_impl_def by (auto split: prod.splits sum.splits)
  then show ?thesis
    by (simp add: for_each_first first_violation_append split: sum.splits)
qed

text \<open>
  Claim C8. Validation runs the optional rules, then the required rules, then the
  conditional rules, a conditional rule only when its predicate is true of the class
  and the specification, and its result is the first violation in that order: what
  comes after it is not checked. An optional rule is checked when the attribute it
  names is true; a conditional rule with no predicate raises \<^verbatim>\<open>KeyError\<close>.
\<close>

theorem validate_impl_order:
  "fst (validate_impl impl req api_spec) =
     first_violation
       (map (\<lambda>r. if truthy (getattr impl (rule_name r))
                  then fst (validate_required_fn_args impl r) else Inr ())
            (req_optional req)
        @ map (\<lambda>r. fst (validate_required_fn_args impl r)) (req_required req)
        @ map (\<lambda>r. case rule_condition r of
                      None \<Rightarrow> Inl (KeyError ''condition'')
                    | Some cond \<Rightarrow>
                        if cond impl api_spec then fst (validate_required_fn_args impl r)
                        else Inr ())
            (req_conditional req))"
proof -
  have o: "(\<lambda>r. fst (validate_optional_fn_args impl r)) =
           (\<lambda>r. if truthy (getattr impl (rule_name r))
                  then fst (validate_required_fn_args impl r) else Inr ())"
    by (auto simp: validate_optional_fn_args_def)
  have c: "(\<lambda>r. fst (validate_conditional impl api_spec r)) =
           (\<lambda>r. case rule_condition r of
                      None \<Rightarrow> Inl (KeyError ''condition'')
                    | Some cond \<Rightarrow>
                        if cond impl api_spec then fst (validate_required_fn_args impl r)
                        else Inr ())"
    by (auto simp: validate_conditional_def split: option.splits)
  show ?thesis
    unfolding validate_impl_first o c ..
qed

subsection \<open>Whether a method is there\<close>

lemma check_required_args_msg:
  "check_required_args fn_str args required_args \<noteq> Inl (UserException [msg_not_function n])"
  by (induction required_args)
    (auto simp: msg_not_function_def msg_not_provided_def msg_self_first_def split: list.splits)

lemma check_formal_args_msg:
  "check_formal_args fn_str required_args optional_args seen_args args
     \<noteq> Inl (UserException [msg_not_function n])"
  by (induction args arbitrary: seen_args)
    (auto simp: msg_not_function_def msg_not_supported_def msg_duplicated_def)

lemma check_signature_msg:
  "check_signature m fn required_args optional_args \<noteq> Inl (UserException [msg_not_function n])"
  unfolding check_signature_def
  by (cases fn) (auto simp: check_required_args_msg check_formal_args_msg split: sum.splits)

lemma not_defined_neq_not_function: "msg_not_defined n \<noteq> msg_not_function m"
  by (simp add: msg_not_defined_def msg_not_function_def)

text \<open>
  Claim C10. Whether a required method is there is decided by the truth value of the
  attribute and not by its being defined: when the attribute that a rule names is
  false (bound to \<^verbatim>\<open>None\<close>, say), validating the rule as a required one raises
  \<^verbatim>\<open>required function "..." is not defined\<close>, and validating it as an optional one
  skips it; and \<^verbatim>\<open>"..." is defined, but is not a function\<close> is raised exactly when the
  attribute is true and not callable.
\<close>

theorem existence_by_truthiness:
  "(\<not> truthy (getattr impl (rule_name r)) \<longrightarrow>
      fst (validate_required_fn_args impl r)
        = Inl (UserException [''required function \"'' @ rule_name r @ ''\" is not defined''])
      \<and> validate_optional_fn_args impl r = (Inr (), r))
   \<and> (fst (validate_required_fn_args impl r)
         = Inl (UserException [''\"'' @ rule_name r @ ''\" is defined, but is not a function''])
       \<longleftrightarrow> truthy (getattr impl (rule_name r)) \<and> \<not> callable (getattr impl (rule_name r)))"
proof -
  let ?fn = "getattr impl (rule_name r)"
  have a: "\<not> truthy ?fn \<Longrightarrow>
      fst (validate_required_fn_args impl r) = Inl (UserException [msg_not_defined (rule_name r)])"
    by (simp add: validate_required_fn_args_def)
  have b: "\<not> truthy ?fn \<Longrightarrow> validate_optional_fn_args impl r = (Inr (), r)"
    by (simp add: validate_optional_fn_args_def)
  have c: "truthy ?fn \<Longrightarrow> \<not> callable ?fn \<Longrightarrow>
      fst (validate_required_fn_args impl r) = Inl (UserException [msg_not_function (rule_name r)])"
    by (simp add: validate_required_fn_args_def)
  have d: "truthy ?fn \<Longrightarrow> callable ?fn \<Longrightarrow>
      fst (validate_required_fn_args impl r) \<noteq> Inl (UserException [msg_not_function (rule_name r)])"
    by (auto simp: validate_required_fn_args_def Let_def check_signature_msg
          condition_args_loop_raises split: option.splits list.splits)
  have e: "\<not> truthy ?fn \<Longrightarrow>
      fst (validate_required_fn_args impl r) \<noteq> Inl (UserException [msg_not_function (rule_name r)])"
    using a not_defined_neq_not_function by simp
  show ?thesis
    using a b c d e unfolding msg_not_defined_def msg_not_function_def by blast
qed

theorem existence_by_truthiness_witness:
  "\<not> truthy (getattr (PyClass [(''predict'', PyNone)]) ''predict'')
   \<and> fst (validate_required_fn_args (PyClass [(''predict'', PyNone)])
           (req_required TENSORFLOW_CLASS_VALIDATION ! 1))
       = Inl (UserException [''required function \"predict\" is not defined''])
   \<and> fst (validate_optional_fn_args (PyClass [(''predict'', PyNone)])
           (req_required TENSORFLOW_CLASS_VALIDATION ! 1)) = Inr ()"
  using existence_by_truthiness
    [of "PyClass [(''predict'', PyNone)]" "req_required TENSORFLOW_CLASS_VALIDATION ! 1"]
  by (simp add: getattr_def TENSORFLOW_CLASS_VALIDATION_def)

subsection \<open>The table of the Python predictor\<close>

text \<open>
  The first rule of the Python table has a conditional argument, so validating it ends
  in one of three exceptions, and validation against the Python table never gets past
  it: neither \<^verbatim>\<open>predict\<close> nor \<^verbatim>\<open>load_model\<close> is looked at.
\<close>

lemma validate_python_init_rule:
  "fst (validate_required_fn_args impl python_init_rule) =
     (if \<not> truthy (getattr impl ''__init__'')
      then Inl (UserException [msg_not_defined ''__init__''])
      else if \<not> callable (getattr impl ''__init__'')
      then Inl (UserException [msg_not_function ''__init__''])
      else Inl (NameError ''api_spec''))"
  by (simp add: validate_required_fn_args_def python_init_rule_def load_name_api_spec_def)

lemma validate_impl_python_stops_at_init:
  "fst (validate_impl impl PYTHON_CLASS_VALIDATION api_spec)
     = fst (validate_required_fn_args impl python_init_rule)"
proof -
  have "\<exists>e. fst (validate_required_fn_args impl python_init_rule) = Inl e"
    by (simp add: validate_python_init_rule)
  then obtain e where "fst (validate_required_fn_args impl python_init_rule) = Inl e" ..
  then show ?thesis
    by (simp add: validate_impl_first PYTHON_CLASS_VALIDATION_def python_init_rule_def)
qed

text \<open>
  Claim C4. For the Python predictor, \<^verbatim>\<open>load_model\<close> is not required when no models
  are specified, and with \<^verbatim>\<open>models.dir\<close> set a class without \<^verbatim>\<open>load_model\<close> is
  refused with \<^verbatim>\<open>required function "load_model" is not defined\<close>. The code does not get
  there: for a class with \<^verbatim>\<open>__init__(self, config, python_client)\<close> and
  \<^verbatim>\<open>predict(self, payload)\<close> and a specification with \<^verbatim>\<open>models.dir\<close> set, validation
  raises \<^verbatim>\<open>NameError\<close> in the \<^verbatim>\<open>__init__\<close> rule, as it does for the class and the
  specification of the scenario.
\<close>

theorem validate_impl_load_model:
  "fst (validate_impl client_class PYTHON_CLASS_VALIDATION models_dir_api_spec)
     = Inl (NameError ''api_spec'')
   \<and> fst (validate_impl scenario_class PYTHON_CLASS_VALIDATION scenario_api_spec)
     = Inl (NameError ''api_spec'')"
  by (simp add: validate_impl_def PYTHON_CLASS_VALIDATION_def validate_required_fn_args_def
      client_class_def scenario_class_def getattr_def load_name_api_spec_def)

text \<open>
  Claim C5. A required argument that the method lacks is reported with the rendered
  signature, as for \<^verbatim>\<open>__init__(self)\<close> of a Python predictor, which lacks
  \<^verbatim>\<open>config\<close>. The code raises \<^verbatim>\<open>NameError\<close> for this class, before it renders the
  signature.
\<close>

theorem validate_impl_missing_config:
  "fst (validate_impl no_config_class PYTHON_CLASS_VALIDATION scenario_api_spec)
     = Inl (NameError ''api_spec'')"
  by (simp add: validate_impl_def PYTHON_CLASS_VALIDATION_def validate_required_fn_args_def
      no_config_class_def getattr_def load_name_api_spec_def)

text \<open>
  The tables of the other two predictors have no conditional arguments, and there the
  missing argument is reported as the claim says. In general the first required name
  that the method lacks is reported, unless \<^verbatim>\<open>self\<close> comes before it in the rule and
  is not the method's first parameter.
\<close>

lemma validate_impl_tensorflow_missing_config:
  "fst (validate_impl tensorflow_no_config_class TENSORFLOW_CLASS_VALIDATION scenario_api_spec)
     = Inl (UserException [''invalid signature for function \"__init__(self, tensorflow_client)\": \"config\" is a required argument, but was not provided''])"
  by (simp add: validate_impl_def TENSORFLOW_CLASS_VALIDATION_def validate_required_fn_args_def
      tensorflow_no_config_class_def getattr_def check_signature_def render_fn_str_def
      msg_not_provided_def)

lemma check_required_args_first_missing:
  assumes "set pre \<subseteq> set args" and "a \<notin> set args"
    and "''self'' \<in> set pre \<Longrightarrow> take 1 args = [''self'']"
  shows "check_required_args fn_str args (pre @ a # post)
           = Inl (UserException [msg_not_provided fn_str a])"
  using assms
proof (induction pre)
  case Nil
  then show ?case by simp
next
  case (Cons p pre)
  then show ?case by (cases args) auto
qed

section \<open>The module loader\<close>




section \<open>Finding the class\<close>

lemma class_loop_filter:
  "class_loop t classes pc =
     (case pc of
        None \<Rightarrow>
          (case filter (\<lambda>cd. fst cd = t) classes of
             [] \<Rightarrow> Inr None
           | [cd] \<Rightarrow> Inr (Some (snd cd))
           | _ \<Rightarrow> Inl (UserException [msg_multiple t]))
      | Some p \<Rightarrow>
          (case filter (\<lambda>cd. fst cd = t) classes of
             [] \<Rightarrow> Inr (Some p)
           | _ \<Rightarrow> Inl (UserException [msg_multiple t])))"
  by (induction classes arbitrary: pc) (auto split: option.splits list.splits)

lemma find_predictor_class_filter:
  "find_predictor_class classes t =
     (case filter (\<lambda>cd. fst cd = t) classes of
        [] \<Rightarrow> Inl (UserException [msg_no_class t])
      | [cd] \<Rightarrow> Inr (snd cd)
      | _ \<Rightarrow> Inl (UserException [msg_multiple t]))"
  by (simp add: find_predictor_class_def class_loop_filter split: list.splits)

text \<open>The search does not depend on the order in which the classes come.\<close>

lemma mset_single_list: "mset zs = {#x#} \<Longrightarrow> zs = [x]"
  by (cases zs) auto

lemma filter_perm_cases:
  assumes "mset xs = mset ys"
  shows "(case filter P xs of [] \<Rightarrow> a | [x] \<Rightarrow> f x | _ \<Rightarrow> b)
       = (case filter P ys of [] \<Rightarrow> a | [x] \<Rightarrow> f x | _ \<Rightarrow> b)"
proof -
  have m: "mset (filter P xs) = mset (filter P ys)"
    using assms by simp
  then have l: "length (filter P xs) = length (filter P ys)"
    by (rule mset_eq_length)
  show ?thesis
  proof (cases "filter P xs")
    case Nil
    with l show ?thesis by simp
  next
    case (Cons x xs')
    note cx = this
    show ?thesis
    proof (cases xs')
      case Nil
      with cx m have "mset (filter P ys) = {#x#}" by simp
      then have "filter P ys = [x]" by (rule mset_single_list)
      with cx Nil show ?thesis by simp
    next
      case (Cons x' xs'')
      with cx l have "length (filter P ys) \<ge> 2" by simp
      then obtain y y' ys' where "filter P ys = y # y' # ys'"
        by (cases "filter P ys"; cases "tl (filter P ys)") auto
      with cx Cons show ?thesis by simp
    qed
  qed
qed

lemma find_predictor_class_perm:
  "mset classes' = mset classes \<Longrightarrow>
     find_predictor_class classes' t = find_predictor_class classes t"
  unfolding find_predictor_class_filter by (rule filter_perm_cases)

text \<open>
  The classes of a module come with names that differ from each other, so the search
  over them never finds two, and the error for several definitions is never raised.
\<close>

lemma isclass_members_names: "map fst (isclass_members m ns) = filter (\<lambda>n. \<exists>d c. getattr_module m n = Some (Class d c)) ns"
  by (induction ns) (auto split: option.splits pymember.splits)

lemma distinct_dir_module: "distinct (dir_module m)"
  by (simp add: dir_module_def)

lemma distinct_getmembers: "distinct (map fst (getmembers_isclass m))"
  by (simp add: getmembers_isclass_def isclass_members_names distinct_dir_module)

lemma filter_distinct_fst:
  "distinct (map fst xs) \<Longrightarrow> length (filter (\<lambda>cd. fst cd = t) xs) \<le> 1"
  by (induction xs) (auto simp: filter_empty_conv image_iff)

lemma never_multiple:
  "find_predictor_class (getmembers_isclass m) t \<noteq> Inl (UserException [msg_multiple t])"
proof -
  have "length (filter (\<lambda>cd. fst cd = t) (getmembers_isclass m)) \<le> 1"
    by (rule filter_distinct_fst) (rule distinct_getmembers)
  moreover have "msg_multiple t \<noteq> msg_no_class t"
  proof
    assume "msg_multiple t = msg_no_class t"
    then have "length (msg_multiple t) = length (msg_no_class t)" by simp
    then show False by (simp add: msg_multiple_def msg_no_class_def)
  qed
  ultimately show ?thesis
    by (auto simp: find_predictor_class_filter split: list.splits)
qed

lemma getmembers_duplicate:
  "getmembers_isclass duplicate_module = [(''PythonPredictor'', client_class)]"
  by (simp add: getmembers_isclass_def duplicate_module_def new_module_def dir_module_def
      getattr_module_def)

lemma getmembers_alias:
  "getmembers_isclass alias_module
     = [(''Base'', client_class), (''PythonPredictor'', scenario_class)]"
  by (simp add: getmembers_isclass_def alias_module_def new_module_def dir_module_def
      getattr_module_def)

text \<open>
  Claim C3. The search gives the one class whose declared name is the target name, and
  two or more such classes always raise \<^verbatim>\<open>multiple definitions for <name> class found\<close>.
  The code does not raise it: for a source file that defines \<^verbatim>\<open>PythonPredictor\<close> twice,
  and for one that holds two classes declared as \<^verbatim>\<open>PythonPredictor\<close> under the names
  \<^verbatim>\<open>Base\<close> and \<^verbatim>\<open>PythonPredictor\<close>, the search finds one class and no error;
  \<^verbatim>\<open>class_impl\<close> then raises \<^verbatim>\<open>AttributeError\<close> and returns no class.
\<close>

theorem duplicate_definitions_accepted:
  "find_predictor_class (getmembers_isclass duplicate_module) ''PythonPredictor''
     = Inr client_class
   \<and> find_predictor_class (getmembers_isclass alias_module) ''PythonPredictor''
     = Inr scenario_class
   \<and> class_impl duplicate_env
        (Predictor_init PythonPredictorType provider model_dir scenario_api_spec) ''/project''
     = Inl (AttributeError ''_api_spec'')"
  by (simp add: getmembers_duplicate getmembers_alias find_predictor_class_def
      class_impl_def class_impl_try_def load_module_def Predictor_init_def scenario_api_spec_def
      duplicate_env_def os_path_join_def endswith_def select_validation_def self_getattr_def
      except_CortexException_wrap_def)


text \<open>\<^verbatim>\<open>class_impl\<close> puts the path in front of the message.\<close>

lemma class_impl_no_class:
  assumes "load_module env ''cortex_predictor'' (os_path_join project_dir (self_path self)) = Inr impl"
    and "select_validation self = Some (t, validations)"
    and "filter (\<lambda>cd. fst cd = t) (getmembers_isclass impl) = []"
  shows "class_impl env self project_dir
           = Inl (UserException [''error in '' @ self_path self, t @ '' class is not defined''])"
  using assms
  by (simp add: class_impl_def class_impl_try_def find_predictor_class_filter msg_no_class_def
      except_CortexException_wrap_def)

section \<open>The runtime client\<close>

text \<open>
  Claim C7. \<^verbatim>\<open>initialize_client\<close> makes one client, chosen by the type of the
  predictor. For the ONNX type the code reads \<^verbatim>\<open>self.models\<close>, which no code binds, and
  raises \<^verbatim>\<open>AttributeError\<close> where the claim has an \<^verbatim>\<open>ONNXClient\<close>.
\<close>

theorem initialize_client_onnx:
  "initialize_client (Predictor_init ONNXPredictorType provider model_dir api_spec)
     tf_serving_host tf_serving_port
   = Inl (AttributeError ''models'')"
  by (simp add: initialize_client_def Predictor_init_def self_getattr_def)

text \<open>For the three other types the client is the one the claim names.\<close>

lemma initialize_client_others:
  "initialize_client (Predictor_init PythonPredictorType provider model_dir api_spec) None None
     = Inr (Some PythonClient)"
  "initialize_client (Predictor_init TensorFlowPredictorType provider model_dir api_spec)
     (Some host) (Some port) = Inr (Some (TensorFlowClient (host @ '':'' @ port)))"
  "initialize_client (Predictor_init TensorFlowNeuronPredictorType provider model_dir api_spec)
     (Some host) (Some port) = Inr (Some (TensorFlowClient (host @ '':'' @ port)))"
  by (simp_all add: initialize_client_def Predictor_init_def str_add_def)

section \<open>Instantiating the implementation\<close>

text \<open>
  \<^verbatim>\<open>class_impl\<close> reads \<^verbatim>\<open>self._api_spec\<close> once it has found the class, and the object
  has no attribute of this name, so it raises whatever the module holds, and so does
  \<^verbatim>\<open>initialize_impl\<close>.
\<close>

lemma class_impl_try_raises: "\<exists>e. class_impl_try self impl = Inl e"
  by (auto simp: class_impl_try_def self_getattr_def split: option.splits sum.splits)

lemma class_impl_try_not_Inr: "class_impl_try self impl \<noteq> Inr c"
  using class_impl_try_raises [of self impl] by auto

lemma class_impl_raises: "\<exists>e. class_impl env self project_dir = Inl e"
  by (auto simp: class_impl_def class_impl_try_not_Inr split: sum.splits)

lemma initialize_impl_raises: "\<exists>e. initialize_impl env call self project_dir client = Inl e"
  using class_impl_raises [of env self project_dir]
  by (auto simp: initialize_impl_def)

lemma find_scenario:
  "find_predictor_class (getmembers_isclass scenario_module) ''PythonPredictor'' = Inr scenario_class"
  by (simp add: scenario_module_def new_module_def find_predictor_class_def
      getmembers_isclass_def dir_module_def getattr_module_def)

text \<open>
  Claim C1. In the scenario of the specification, \<^verbatim>\<open>initialize_impl\<close> succeeds and
  returns an instance of the class. The code raises \<^verbatim>\<open>AttributeError\<close>.
\<close>

theorem initialize_impl_scenario:
  "initialize_impl scenario_env call
     (Predictor_init PythonPredictorType provider model_dir scenario_api_spec) ''/project'' None
   = Inl (AttributeError ''_api_spec'')"
  by (simp add: initialize_impl_def class_impl_def class_impl_try_def load_module_def
      Predictor_init_def scenario_api_spec_def scenario_env_def os_path_join_def endswith_def
      select_validation_def find_scenario self_getattr_def except_CortexException_wrap_def)

text \<open>
  Claim C2. \<^verbatim>\<open>initialize_impl\<close> instantiates the class with the client under the
  keyword of the predictor's type, and with the configuration. The code does not
  reach the instantiation: for a TensorFlow predictor whose module holds a valid class
  \<^verbatim>\<open>TensorFlowPredictor\<close>, it raises \<^verbatim>\<open>AttributeError\<close>.
\<close>

theorem initialize_impl_tensorflow:
  "initialize_impl tensorflow_env call
     (Predictor_init TensorFlowPredictorType provider model_dir scenario_api_spec) ''/project''
     (Some (TensorFlowClient ''localhost:9000''))
   = Inl (AttributeError ''_api_spec'')"
  by (simp add: initialize_impl_def class_impl_def class_impl_try_def load_module_def
      Predictor_init_def scenario_api_spec_def tensorflow_env_def os_path_join_def endswith_def
      select_validation_def new_module_def find_predictor_class_def self_getattr_def
      except_CortexException_wrap_def getmembers_isclass_def dir_module_def getattr_module_def)

text \<open>
  The instantiation itself, were it reached with a class: the keywords by type. For
  the neuron type, no branch of \<^verbatim>\<open>class_impl\<close> binds the name of the class.
\<close>

lemma instantiate_keywords:
  "instantiate call (Predictor_init ONNXPredictorType provider model_dir api_spec) cls client
     = (case call cls [(''onnx_client'', ClientArg client),
                       (''config'', ConfigArg (case predictor_config api_spec of
                                                 None \<Rightarrow> [] | Some c \<Rightarrow> c))] of
          Inl r \<Rightarrow>
            Inl (except_Exception r
                   (\<lambda>str_e. UserRuntimeException [predictor_path api_spec, ''__init__'', str_e]))
        | Inr obj \<Rightarrow> Inr obj)"
  "instantiate call (Predictor_init TensorFlowPredictorType provider model_dir api_spec) cls client
     = (case call cls [(''tensorflow_client'', ClientArg client),
                       (''config'', ConfigArg (case predictor_config api_spec of
                                                 None \<Rightarrow> [] | Some c \<Rightarrow> c))] of
          Inl r \<Rightarrow>
            Inl (except_Exception r
                   (\<lambda>str_e. UserRuntimeException [predictor_path api_spec, ''__init__'', str_e]))
        | Inr obj \<Rightarrow> Inr obj)"
  "instantiate call (Predictor_init PythonPredictorType provider model_dir api_spec) cls client
     = (case call cls [(''config'', ConfigArg (case predictor_config api_spec of
                                                 None \<Rightarrow> [] | Some c \<Rightarrow> c))] of
          Inl r \<Rightarrow>
            Inl (except_Exception r
                   (\<lambda>str_e. UserRuntimeException [predictor_path api_spec, ''__init__'', str_e]))
        | Inr obj \<Rightarrow> Inr obj)"
  by (simp_all add: instantiate_def Predictor_init_def split: sum.splits)

lemma select_neuron:
  "self_type self = TensorFlowNeuronPredictorType \<Longrightarrow> select_validation self = None"
  by (simp add: select_validation_def)

lemma class_impl_try_neuron:
  "self_type self = TensorFlowNeuronPredictorType \<Longrightarrow>
     class_impl_try self impl = Inl (UnboundLocalError ''target_class_name'')"
  by (simp add: class_impl_try_def select_validation_def)

end
